theory Spec2Isabelle
  imports Main
begin

section \<open>The notification service of notificationService.cpp\<close>

text \<open>
  The program writes to \<open>std::cout\<close> and does nothing else that can be observed. The
  stream is modelled as the list of characters written so far; every method that
  writes takes the stream and returns it extended. Strings are \<open>std::string\<close>: any
  sequence of characters, the line feed included.
\<close>

subsection \<open>The output stream\<close>

type_synonym ostream = string

definition newline :: char where
  "newline = CHR 0x0A"

text \<open>\<open>std::endl\<close> writes a line feed (and flushes, which changes no content).\<close>

definition endl :: "ostream \<Rightarrow> ostream" where
  "endl cout = cout @ [newline]"

text \<open>
  The lines of a piece of output: the text is cut at every line feed; characters
  after the last line feed, if any, form a last unterminated line.
\<close>

fun lines_of :: "string \<Rightarrow> string list" where
  "lines_of [] = []"
| "lines_of (ch # cs) =
     (if ch = newline then [] # lines_of cs
      else (case lines_of cs of [] \<Rightarrow> [[ch]] | l # ls \<Rightarrow> (ch # l) # ls))"

subsection \<open>MessageFormatter\<close>

datatype MessageFormatter = MessageFormatter

fun formatMessage :: "MessageFormatter \<Rightarrow> string \<Rightarrow> string \<Rightarrow> string" where
  "formatMessage MessageFormatter recipient content =
     ''Dear '' @ recipient @ '', '' @ content"

subsection \<open>INotifier and its two implementations\<close>

datatype INotifier = EmailNotifier | SMSNotifier

fun send :: "INotifier \<Rightarrow> string \<Rightarrow> ostream \<Rightarrow> ostream" where
  "send EmailNotifier message cout = endl (cout @ ''Sending Email: '' @ message)"
| "send SMSNotifier message cout = endl (cout @ ''Sending SMS: '' @ message)"

text \<open>\<open>notifyUser\<close> takes the notifier by reference, so it always has an object.\<close>

definition notifyUser :: "INotifier \<Rightarrow> string \<Rightarrow> ostream \<Rightarrow> ostream" where
  "notifyUser notifier message cout = send notifier message cout"

subsection \<open>ILogger and ConsoleLogger\<close>

datatype ILogger = ConsoleLogger

fun log :: "ILogger \<Rightarrow> string \<Rightarrow> ostream \<Rightarrow> ostream" where
  "log ConsoleLogger info cout = endl (cout @ ''Logging: '' @ info)"

subsection \<open>NotificationService\<close>

text \<open>
  The service holds its notifier and logger in \<open>std::unique_ptr\<close>s, which may be
  empty: a pointer is an \<open>option\<close>. Calling a method through an empty pointer is
  undefined behaviour in C++; the model makes it the error \<open>NullDereference\<close>, after
  which nothing is known of the output.
\<close>

datatype error = NullDereference

record NotificationService =
  notifier :: "INotifier option"
  logger :: "ILogger option"
  formatter :: MessageFormatter

text \<open>The constructor moves both pointers into the fields, unchecked.\<close>

definition NotificationService ::
  "INotifier option \<Rightarrow> ILogger option \<Rightarrow> NotificationService" where
  "NotificationService notifier' logger' =
     \<lparr>notifier = notifier', logger = logger', formatter = MessageFormatter\<rparr>"

text \<open>
  \<open>sendNotification\<close> is a non-const method: it returns the object as it leaves
  it, with the stream.
\<close>

definition sendNotification ::
  "NotificationService \<Rightarrow> string \<Rightarrow> string \<Rightarrow> ostream
     \<Rightarrow> error + (NotificationService \<times> ostream)" where
  "sendNotification this recipient content cout =
     (let message = formatMessage (formatter this) recipient content in
      case notifier this of
        None \<Rightarrow> Inl NullDereference
      | Some n \<Rightarrow>
          (let cout1 = send n message cout in
           case logger this of
             None \<Rightarrow> Inl NullDereference
           | Some l \<Rightarrow>
               Inr (this, log l (''Notification sent to '' @ recipient) cout1)))"

subsection \<open>The implicit move operations and a service's lifetime\<close>

text \<open>
  The class declares no copy, move or destructor member and its pointer fields are
  move-only, so the compiler declares a move constructor and a move assignment
  (and no copy). Both work member by member, and moving a \<open>std::unique_ptr\<close> hands
  the object over and leaves the source empty. Each returns the target first and the
  source as it is left second; \<open>move_assignment\<close> is for two distinct objects.
\<close>

definition move_constructor ::
  "NotificationService \<Rightarrow> NotificationService \<times> NotificationService" where
  "move_constructor other =
     (\<lparr>notifier = notifier other, logger = logger other, formatter = formatter other\<rparr>,
      other\<lparr>notifier := None, logger := None\<rparr>)"

definition move_assignment ::
  "NotificationService \<Rightarrow> NotificationService \<Rightarrow> NotificationService \<times> NotificationService" where
  "move_assignment this other =
     (this\<lparr>notifier := notifier other, logger := logger other, formatter := formatter other\<rparr>,
      other\<lparr>notifier := None, logger := None\<rparr>)"

text \<open>
  A service that is used and never moved: a caller makes one \<open>sendNotification\<close>
  call after another on the same object, each on the object as the call before left
  it, and stops at the first call that fails.
\<close>

fun sendNotifications ::
  "NotificationService \<Rightarrow> (string \<times> string) list \<Rightarrow> ostream
     \<Rightarrow> error + (NotificationService \<times> ostream)" where
  "sendNotifications this [] cout = Inr (this, cout)"
| "sendNotifications this ((recipient, content) # calls) cout =
     (case sendNotification this recipient content cout of
        Inl e \<Rightarrow> Inl e
      | Inr (this', cout') \<Rightarrow> sendNotifications this' calls cout')"

subsection \<open>The entry point\<close>

text \<open>
  \<open>std::make_unique\<close> returns a non-empty pointer. \<open>main\<close> returns the exit code
  with the stream.
\<close>

definition make_unique :: "'a \<Rightarrow> 'a option" where
  "make_unique obj = Some obj"

definition main :: "ostream \<Rightarrow> error + (int \<times> ostream)" where
  "main cout =
     (let emailNotifier = make_unique EmailNotifier;
          consoleLogger = make_unique ConsoleLogger;
          service = NotificationService emailNotifier consoleLogger
      in case sendNotification service ''John'' ''Your order has been shipped!'' cout of
           Inl e \<Rightarrow> Inl e
         | Inr (service', cout1) \<Rightarrow>
             (let smsNotifier = make_unique SMSNotifier;
                  service2 = NotificationService smsNotifier (make_unique ConsoleLogger)
              in case sendNotification service2 ''Alice''
                        ''Your appointment is confirmed!'' cout1 of
                   Inl e \<Rightarrow> Inl e
                 | Inr (service2', cout2) \<Rightarrow> Inr (0, cout2)))"

section \<open>Auxiliary facts\<close>

subsection \<open>Lines of a text\<close>

lemma lines_of_line:
  "newline \<notin> set l \<Longrightarrow> lines_of (l @ newline # rest) = l # lines_of rest"
  by (induction l) auto

lemma lines_of_single:
  "newline \<notin> set l \<Longrightarrow> lines_of (l @ [newline]) = [l]"
  using lines_of_line [of l "[]"] by simp

lemma two_lines:
  assumes "newline \<notin> set a" and "newline \<notin> set b"
  shows "lines_of (a @ newline # b @ [newline]) = [a, b]"
  using assms by (simp add: lines_of_line lines_of_single)

lemma lines_of_prefix:
  "newline \<notin> set p \<Longrightarrow> lines_of rest = l # ls \<Longrightarrow> lines_of (p @ rest) = (p @ l) # ls"
  by (induction p) auto

subsection \<open>What each method appends to the stream\<close>

lemma send_stream:
  "send n m cout =
     cout @ (case n of EmailNotifier \<Rightarrow> ''Sending Email: '' | SMSNotifier \<Rightarrow> ''Sending SMS: '')
       @ m @ [newline]"
  by (cases n) (simp_all add: endl_def)

lemma log_stream: "log l i cout = cout @ ''Logging: '' @ i @ [newline]"
  by (cases l) (simp add: endl_def)

lemma label_no_newline:
  "newline \<notin> set (case n of EmailNotifier \<Rightarrow> ''Sending Email: '' | SMSNotifier \<Rightarrow> ''Sending SMS: '')"
  by (cases n) (simp_all add: newline_def)

lemma sendNotification_stream:
  assumes "notifier this = Some n" and "logger this = Some l"
  shows "sendNotification this r c cout =
           Inr (this, cout
             @ (case n of EmailNotifier \<Rightarrow> ''Sending Email: '' | SMSNotifier \<Rightarrow> ''Sending SMS: '')
             @ ''Dear '' @ r @ '', '' @ c @ [newline]
             @ ''Logging: Notification sent to '' @ r @ [newline])"
proof -
  have "formatMessage (formatter this) r c = ''Dear '' @ r @ '', '' @ c"
    by (cases "formatter this") simp
  with assms show ?thesis
    by (simp add: sendNotification_def send_stream log_stream)
qed

subsection \<open>A run of calls on a service that has both pointers\<close>

lemma sendNotifications_valid:
  assumes "notifier this = Some n" and "logger this = Some l"
  shows "\<exists>out. sendNotifications this calls cout = Inr (this, cout @ out)"
proof (induction calls arbitrary: cout)
  case Nil
  show ?case by simp
next
  case (Cons call calls)
  obtain r c where call: "call = (r, c)" by (cases call)
  from sendNotification_stream [OF assms, of r c cout]
  obtain out1 where one: "sendNotification this r c cout = Inr (this, cout @ out1)"
    by blast
  from Cons.IH [of "cout @ out1"]
  obtain out2 where "sendNotifications this calls (cout @ out1) = Inr (this, (cout @ out1) @ out2)"
    by blast
  with call one have "sendNotifications this (call # calls) cout = Inr (this, cout @ (out1 @ out2))"
    by simp
  then show ?case by blast
qed

section \<open>Claims\<close>

subsection \<open>C1: sendNotification writes the dispatch, then the log record\<close>

text \<open>
  C1 (as amended). Let the service own a notifier \<open>n\<close> and a logger, and let the
  recipient \<open>r\<close> and the content \<open>c\<close> contain no line feed. Then
  \<open>sendNotification(r, c)\<close> returns normally, leaves the service as it was, and
  appends to the stream exactly two lines, in this order: the label of \<open>n\<close>
  followed by \<open>"Dear " + r + ", " + c\<close>, then
  \<open>"Logging: Notification sent to " + r\<close>.
\<close>

theorem sendNotification_two_lines:
  assumes "notifier this = Some n" and "logger this = Some l"
    and "newline \<notin> set r" and "newline \<notin> set c"
  shows "\<exists>out. sendNotification this r c cout = Inr (this, cout @ out) \<and>
           lines_of out =
             [(case n of EmailNotifier \<Rightarrow> ''Sending Email: '' | SMSNotifier \<Rightarrow> ''Sending SMS: '')
                @ ''Dear '' @ r @ '', '' @ c,
              ''Logging: Notification sent to '' @ r]"
proof -
  let ?lbl = "case n of EmailNotifier \<Rightarrow> ''Sending Email: '' | SMSNotifier \<Rightarrow> ''Sending SMS: ''"
  let ?a = "?lbl @ ''Dear '' @ r @ '', '' @ c"
  let ?b = "''Logging: Notification sent to '' @ r"
  have a: "newline \<notin> set ?a"
    using assms(3,4) label_no_newline [of n] by (simp add: newline_def)
  have b: "newline \<notin> set ?b"
    using assms(3) by (simp add: newline_def)
  have "sendNotification this r c cout = Inr (this, cout @ (?a @ newline # ?b @ [newline]))"
    using sendNotification_stream [OF assms(1,2)] by simp
  moreover have "lines_of (?a @ newline # ?b @ [newline]) = [?a, ?b]"
    using a b by (rule two_lines)
  ultimately show ?thesis by blast
qed

text \<open>The theorem at an SMS service, recipient \<open>John\<close>, content \<open>Hi\<close>.\<close>

theorem sendNotification_two_lines_witness:
  "notifier (NotificationService (Some SMSNotifier) (Some ConsoleLogger)) = Some SMSNotifier \<and>
   logger (NotificationService (Some SMSNotifier) (Some ConsoleLogger)) = Some ConsoleLogger \<and>
   newline \<notin> set ''John'' \<and> newline \<notin> set ''Hi'' \<and>
   (\<exists>out. sendNotification (NotificationService (Some SMSNotifier) (Some ConsoleLogger))
             ''John'' ''Hi'' [] = Inr (NotificationService (Some SMSNotifier) (Some ConsoleLogger), out) \<and>
          lines_of out = [''Sending SMS: Dear John, Hi'', ''Logging: Notification sent to John''])"
  using sendNotification_two_lines
    [of "NotificationService (Some SMSNotifier) (Some ConsoleLogger)" SMSNotifier ConsoleLogger
        "''John''" "''Hi''" "[]"]
  by (simp add: NotificationService_def newline_def)

text \<open>
  A content with a line feed in it: on an email service, \<open>sendNotification\<close>
  with recipient \<open>Bob\<close> and the content \<open>Line1\<close>, line feed, \<open>Line2\<close>
  writes three lines, not two.
\<close>

theorem sendNotification_newline_counterexample:
  "sendNotification (NotificationService (Some EmailNotifier) (Some ConsoleLogger))
     ''Bob'' ''Line1\<newline>Line2'' []
     = Inr (NotificationService (Some EmailNotifier) (Some ConsoleLogger),
            ''Sending Email: Dear Bob, Line1\<newline>Line2\<newline>Logging: Notification sent to Bob\<newline>'')
   \<and> lines_of ''Sending Email: Dear Bob, Line1\<newline>Line2\<newline>Logging: Notification sent to Bob\<newline>''
     = [''Sending Email: Dear Bob, Line1'', ''Line2'', ''Logging: Notification sent to Bob'']"
  by (simp add: sendNotification_def NotificationService_def endl_def newline_def)

subsection \<open>C2: formatMessage\<close>

text \<open>
  C2. For all texts \<open>r\<close> and \<open>c\<close>, \<open>formatMessage(r, c)\<close> is exactly
  \<open>"Dear " + r + ", " + c\<close>; so it is for two empty texts, and for texts that
  themselves contain \<open>Dear\<close> or a comma. The result is a function of the two
  arguments alone: \<open>formatMessage\<close> neither reads nor extends the output stream, and
  it has no error result.
\<close>

theorem formatMessage_exact:
  "formatMessage f r c = ''Dear '' @ r @ '', '' @ c \<and>
   formatMessage f [] [] = ''Dear , '' \<and>
   formatMessage f ''Dear'' '', ,'' = ''Dear Dear, , ,''"
  by (cases f) simp

subsection \<open>C3: the entry point\<close>

text \<open>
  C3. From any state of the stream, \<open>main\<close> returns exit code 0 and has appended
  exactly four lines: the email dispatch to John, its log record, the SMS dispatch to
  Alice, its log record.
\<close>

theorem main_output:
  "\<exists>out. main cout = Inr (0, cout @ out) \<and>
     lines_of out =
       [''Sending Email: Dear John, Your order has been shipped!'',
        ''Logging: Notification sent to John'',
        ''Sending SMS: Dear Alice, Your appointment is confirmed!'',
        ''Logging: Notification sent to Alice'']"
proof -
  let ?out = "''Sending Email: Dear John, Your order has been shipped!\<newline>''
    @ ''Logging: Notification sent to John\<newline>''
    @ ''Sending SMS: Dear Alice, Your appointment is confirmed!\<newline>''
    @ ''Logging: Notification sent to Alice\<newline>''"
  have "main cout = Inr (0, cout @ ?out)"
    by (simp add: main_def make_unique_def NotificationService_def sendNotification_def
        endl_def newline_def)
  moreover have "lines_of ?out =
       [''Sending Email: Dear John, Your order has been shipped!'',
        ''Logging: Notification sent to John'',
        ''Sending SMS: Dear Alice, Your appointment is confirmed!'',
        ''Logging: Notification sent to Alice'']"
    by (simp add: newline_def)
  ultimately show ?thesis by blast
qed

subsection \<open>C4: send\<close>

text \<open>
  C4 (as amended). For either notifier and every message \<open>m\<close> without a line feed,
  \<open>send(m)\<close> appends exactly one line to the stream: the notifier's label followed by
  \<open>m\<close>. A logger has no fields, and \<open>send\<close> touches nothing but the stream: a
  \<open>log\<close> call after it appends its own record to what \<open>send\<close> left, as it would to any
  other stream.
\<close>

theorem send_one_line:
  assumes "newline \<notin> set m"
  shows "(\<exists>out. send n m cout = cout @ out \<and>
            lines_of out =
              [(case n of EmailNotifier \<Rightarrow> ''Sending Email: '' | SMSNotifier \<Rightarrow> ''Sending SMS: '')
                 @ m])
         \<and> log l i (send n m cout) = send n m cout @ ''Logging: '' @ i @ [newline]"
proof
  let ?line = "(case n of EmailNotifier \<Rightarrow> ''Sending Email: '' | SMSNotifier \<Rightarrow> ''Sending SMS: '') @ m"
  have "newline \<notin> set ?line"
    using assms label_no_newline [of n] by simp
  then have "lines_of (?line @ [newline]) = [?line]"
    by (rule lines_of_single)
  moreover have "send n m cout = cout @ (?line @ [newline])"
    by (simp add: send_stream)
  ultimately show "\<exists>out. send n m cout = cout @ out \<and> lines_of out = [?line]"
    by blast
next
  show "log l i (send n m cout) = send n m cout @ ''Logging: '' @ i @ [newline]"
    by (rule log_stream)
qed

text \<open>The theorem at the email notifier and the message \<open>hello\<close>.\<close>

theorem send_one_line_witness:
  "newline \<notin> set ''hello'' \<and>
   send EmailNotifier ''hello'' ''>'' = ''>Sending Email: hello\<newline>'' \<and>
   lines_of ''Sending Email: hello\<newline>'' = [''Sending Email: hello''] \<and>
   log ConsoleLogger ''x'' (send EmailNotifier ''hello'' ''>'')
     = send EmailNotifier ''hello'' ''>'' @ ''Logging: x\<newline>''"
  using send_one_line [of "''hello''" EmailNotifier "''>''" ConsoleLogger "''x''"]
  by (simp add: endl_def newline_def)

text \<open>
  A message with a line feed in it: \<open>send\<close> of \<open>a\<close>, line feed, \<open>b\<close> writes
  two lines.
\<close>

theorem send_newline_counterexample:
  "send SMSNotifier ''a\<newline>b'' [] = ''Sending SMS: a\<newline>b\<newline>'' \<and>
   lines_of ''Sending SMS: a\<newline>b\<newline>'' = [''Sending SMS: a'', ''b'']"
  by (simp add: endl_def newline_def)

subsection \<open>C5: log\<close>

text \<open>
  C5 (as amended). For every info text \<open>i\<close> without a line feed,
  \<open>ConsoleLogger::log(i)\<close> appends exactly one line to the stream:
  \<open>"Logging: "\<close> followed by \<open>i\<close>.
\<close>

theorem log_one_line:
  assumes "newline \<notin> set i"
  shows "\<exists>out. log ConsoleLogger i cout = cout @ out \<and> lines_of out = [''Logging: '' @ i]"
proof (intro exI conjI)
  show "log ConsoleLogger i cout = cout @ (''Logging: '' @ i) @ [newline]"
    by (simp add: endl_def)
  from assms have "newline \<notin> set (''Logging: '' @ i)"
    by (simp add: newline_def)
  then show "lines_of ((''Logging: '' @ i) @ [newline]) = [''Logging: '' @ i]"
    by (rule lines_of_single)
qed

text \<open>The theorem at the info text \<open>started\<close>.\<close>

theorem log_one_line_witness:
  "newline \<notin> set ''started'' \<and>
   log ConsoleLogger ''started'' [] = ''Logging: started\<newline>'' \<and>
   lines_of ''Logging: started\<newline>'' = [''Logging: started'']"
  using log_one_line [of "''started''" "[]"]
  by (simp add: endl_def newline_def)

text \<open>
  An info text with a line feed in it: \<open>log\<close> of \<open>a\<close>, line feed, \<open>b\<close>
  writes two lines.
\<close>

theorem log_newline_counterexample:
  "log ConsoleLogger ''a\<newline>b'' [] = ''Logging: a\<newline>b\<newline>'' \<and>
   lines_of ''Logging: a\<newline>b\<newline>'' = [''Logging: a'', ''b'']"
  by (simp add: endl_def newline_def)

subsection \<open>C6: exchanging the notifier\<close>

text \<open>
  C6. Take two services that differ only in the notifier, email in one and SMS in
  the other, with the same logger, and call \<open>sendNotification(r, c)\<close> on each from
  the same stream. Both return normally, and what they append differs in the label
  alone: the email run appends \<open>"Sending Email: "\<close> and the SMS run
  \<open>"Sending SMS: "\<close>, each followed by the same text, which ends with the logger's
  record. Line by line: the first lines are the two labels followed by the same text,
  and all later lines, the logger's among them, are the same.
\<close>

theorem notifier_substitution:
  "\<exists>x ls.
     sendNotification (NotificationService (Some EmailNotifier) (Some l)) r c cout
       = Inr (NotificationService (Some EmailNotifier) (Some l),
              cout @ ''Sending Email: '' @ ''Dear '' @ r @ '', '' @ c @ [newline]
                @ ''Logging: Notification sent to '' @ r @ [newline]) \<and>
     sendNotification (NotificationService (Some SMSNotifier) (Some l)) r c cout
       = Inr (NotificationService (Some SMSNotifier) (Some l),
              cout @ ''Sending SMS: '' @ ''Dear '' @ r @ '', '' @ c @ [newline]
                @ ''Logging: Notification sent to '' @ r @ [newline]) \<and>
     lines_of (''Sending Email: '' @ ''Dear '' @ r @ '', '' @ c @ [newline]
                @ ''Logging: Notification sent to '' @ r @ [newline])
       = (''Sending Email: '' @ x) # ls \<and>
     lines_of (''Sending SMS: '' @ ''Dear '' @ r @ '', '' @ c @ [newline]
                @ ''Logging: Notification sent to '' @ r @ [newline])
       = (''Sending SMS: '' @ x) # ls"
proof -
  let ?rest = "''Dear '' @ r @ '', '' @ c @ [newline]
                @ ''Logging: Notification sent to '' @ r @ [newline]"
  let ?e = "NotificationService (Some EmailNotifier) (Some l)"
  let ?s = "NotificationService (Some SMSNotifier) (Some l)"
  have e: "sendNotification ?e r c cout = Inr (?e, cout @ ''Sending Email: '' @ ?rest)"
    using sendNotification_stream [of ?e EmailNotifier l r c cout]
    by (simp add: NotificationService_def)
  have s: "sendNotification ?s r c cout = Inr (?s, cout @ ''Sending SMS: '' @ ?rest)"
    using sendNotification_stream [of ?s SMSNotifier l r c cout]
    by (simp add: NotificationService_def)
  have "lines_of ?rest \<noteq> []"
    by (simp add: newline_def split: list.split)
  then obtain x ls where xs: "lines_of ?rest = x # ls"
    by (cases "lines_of ?rest") auto
  have pe: "newline \<notin> set ''Sending Email: ''" and ps: "newline \<notin> set ''Sending SMS: ''"
    by (simp_all add: newline_def)
  have "lines_of (''Sending Email: '' @ ?rest) = (''Sending Email: '' @ x) # ls"
    by (rule lines_of_prefix [OF pe xs])
  moreover have "lines_of (''Sending SMS: '' @ ?rest) = (''Sending SMS: '' @ x) # ls"
    by (rule lines_of_prefix [OF ps xs])
  ultimately show ?thesis using e s by blast
qed

subsection \<open>C7: the service and its two pointers\<close>

text \<open>
  C7 (as amended). A service holds exactly the two pointers its constructor was
  given, and the constructor accepts empty ones. A service that holds a notifier and
  a logger keeps both through any sequence of \<open>sendNotification\<close> calls: every call
  in the sequence has both to dispatch through and returns, and the service is
  afterwards as it was. On any service, one call either returns the service as it
  was or dereferences an empty pointer. The pointers are not fixed for the lifetime
  of the object, though: the implicit move constructor and move assignment give the
  target the two pointers of the source and leave the source with neither.
\<close>

theorem service_dependencies_lifetime:
  assumes "notifier this = Some n" and "logger this = Some l"
  shows "notifier (NotificationService p q) = p \<and> logger (NotificationService p q) = q \<and>
         (\<exists>out. sendNotifications this calls cout = Inr (this, cout @ out)) \<and>
         (sendNotification svc r c cout = Inl NullDereference \<or>
          (\<exists>cout'. sendNotification svc r c cout = Inr (svc, cout'))) \<and>
         notifier (fst (move_constructor other)) = notifier other \<and>
         logger (fst (move_constructor other)) = logger other \<and>
         notifier (snd (move_constructor other)) = None \<and>
         logger (snd (move_constructor other)) = None \<and>
         notifier (fst (move_assignment svc other)) = notifier other \<and>
         logger (fst (move_assignment svc other)) = logger other \<and>
         notifier (snd (move_assignment svc other)) = None \<and>
         logger (snd (move_assignment svc other)) = None"
proof -
  have ctor: "notifier (NotificationService p q) = p \<and> logger (NotificationService p q) = q"
    by (simp add: NotificationService_def)
  have calls: "\<exists>out. sendNotifications this calls cout = Inr (this, cout @ out)"
    using assms by (rule sendNotifications_valid)
  have one: "sendNotification svc r c cout = Inl NullDereference \<or>
          (\<exists>cout'. sendNotification svc r c cout = Inr (svc, cout'))"
    by (cases "notifier svc"; cases "logger svc") (simp_all add: sendNotification_def)
  have moves: "notifier (fst (move_constructor other)) = notifier other \<and>
         logger (fst (move_constructor other)) = logger other \<and>
         notifier (snd (move_constructor other)) = None \<and>
         logger (snd (move_constructor other)) = None \<and>
         notifier (fst (move_assignment svc other)) = notifier other \<and>
         logger (fst (move_assignment svc other)) = logger other \<and>
         notifier (snd (move_assignment svc other)) = None \<and>
         logger (snd (move_assignment svc other)) = None"
    by (simp add: move_constructor_def move_assignment_def)
  from ctor calls one moves show ?thesis by blast
qed

text \<open>
  The theorem at an email service with a console logger and two calls in a row;
  moving the same service away leaves it without a notifier.
\<close>

theorem service_dependencies_lifetime_witness:
  "notifier (NotificationService (Some EmailNotifier) (Some ConsoleLogger)) = Some EmailNotifier \<and>
   logger (NotificationService (Some EmailNotifier) (Some ConsoleLogger)) = Some ConsoleLogger \<and>
   (\<exists>out. sendNotifications (NotificationService (Some EmailNotifier) (Some ConsoleLogger))
            [(''John'', ''Hi''), (''Alice'', ''Bye'')] []
          = Inr (NotificationService (Some EmailNotifier) (Some ConsoleLogger), out)) \<and>
   notifier (snd (move_constructor (NotificationService (Some EmailNotifier) (Some ConsoleLogger))))
     = None"
  using service_dependencies_lifetime
    [of "NotificationService (Some EmailNotifier) (Some ConsoleLogger)" EmailNotifier ConsoleLogger
        None None "[(''John'', ''Hi''), (''Alice'', ''Bye'')]" "[]"
        "NotificationService None None" "[]" "[]"
        "NotificationService (Some EmailNotifier) (Some ConsoleLogger)"]
  by (simp add: NotificationService_def)

text \<open>
  Three services that do not hold what the claim says. The constructor accepts two
  empty pointers, and \<open>sendNotification\<close> on that service dereferences an empty
  pointer. A service constructed with a notifier and a logger holds neither once it
  has been moved from, and \<open>sendNotification\<close> on it fails in the same way. A
  service constructed with the email notifier holds the SMS notifier after a move
  assignment from an SMS service.
\<close>

theorem service_lifetime_counterexample:
  "notifier (NotificationService None None) = None \<and>
   logger (NotificationService None None) = None \<and>
   sendNotification (NotificationService None None) ''John'' ''Hi'' [] = Inl NullDereference \<and>
   snd (move_constructor (NotificationService (Some EmailNotifier) (Some ConsoleLogger)))
     = NotificationService None None \<and>
   sendNotification
       (snd (move_constructor (NotificationService (Some EmailNotifier) (Some ConsoleLogger))))
       ''John'' ''Hi'' []
     = Inl NullDereference \<and>
   fst (move_assignment (NotificationService (Some EmailNotifier) (Some ConsoleLogger))
                        (NotificationService (Some SMSNotifier) (Some ConsoleLogger)))
     = NotificationService (Some SMSNotifier) (Some ConsoleLogger)"
  by (simp add: NotificationService_def sendNotification_def move_constructor_def
      move_assignment_def)

subsection \<open>C8: no operation fails\<close>

text \<open>
  C8 (as amended). \<open>formatMessage\<close>, \<open>send\<close> and \<open>log\<close> return normally on every
  input: the first yields the formatted text, the other two the stream extended.
  \<open>sendNotification\<close> returns normally, with the stream extended, for every
  recipient and content on every service that owns a notifier and a logger; on any
  service at all it fails exactly when one of the two pointers is empty. No
  operation has any other error result.
\<close>

theorem operations_succeed:
  assumes "notifier this = Some n" and "logger this = Some l"
  shows "formatMessage f r c = ''Dear '' @ r @ '', '' @ c \<and>
         (\<exists>out. send n' m cout = cout @ out) \<and>
         (\<exists>out. log l' i cout = cout @ out) \<and>
         (\<exists>out. sendNotification this r c cout = Inr (this, cout @ out)) \<and>
         ((\<exists>e. sendNotification svc r c cout = Inl e)
            = (notifier svc = None \<or> logger svc = None))"
proof (intro conjI)
  show "formatMessage f r c = ''Dear '' @ r @ '', '' @ c"
    by (cases f) simp
  show "\<exists>out. send n' m cout = cout @ out"
    by (cases n') (simp_all add: endl_def)
  show "\<exists>out. log l' i cout = cout @ out"
    by (cases l') (simp add: endl_def)
  show "\<exists>out. sendNotification this r c cout = Inr (this, cout @ out)"
    using sendNotification_stream [OF assms] by blast
  show "(\<exists>e. sendNotification svc r c cout = Inl e)
            = (notifier svc = None \<or> logger svc = None)"
    by (cases "notifier svc"; cases "logger svc") (simp_all add: sendNotification_def)
qed

text \<open>The theorem at an SMS service, recipient \<open>Alice\<close> and an empty content.\<close>

theorem operations_succeed_witness:
  "notifier (NotificationService (Some SMSNotifier) (Some ConsoleLogger)) = Some SMSNotifier \<and>
   logger (NotificationService (Some SMSNotifier) (Some ConsoleLogger)) = Some ConsoleLogger \<and>
   (\<exists>out. sendNotification (NotificationService (Some SMSNotifier) (Some ConsoleLogger))
            ''Alice'' [] ''#'' =
          Inr (NotificationService (Some SMSNotifier) (Some ConsoleLogger), ''#'' @ out))"
  using operations_succeed
    [of "NotificationService (Some SMSNotifier) (Some ConsoleLogger)" SMSNotifier ConsoleLogger
        MessageFormatter "''Alice''" "[]" EmailNotifier "[]" "''#''" ConsoleLogger "[]"
        "NotificationService None None"]
  by (simp add: NotificationService_def)

text \<open>
  A service constructed with a notifier and an empty logger pointer:
  \<open>sendNotification\<close> does not return normally.
\<close>

theorem null_logger_counterexample:
  "sendNotification (NotificationService (Some EmailNotifier) None) ''John'' ''Hi'' []
     = Inl NullDereference"
  by (simp add: NotificationService_def sendNotification_def)

subsection \<open>C9: notifyUser\<close>

text \<open>
  C9. For every notifier \<open>n\<close>, message \<open>m\<close> and state of the stream,
  \<open>notifyUser(n, m)\<close> leaves the stream exactly as \<open>n.send(m)\<close> does.
\<close>

theorem notifyUser_is_send:
  "notifyUser n m cout = send n m cout"
  by (simp add: notifyUser_def)

subsection \<open>C10: the log record does not depend on the content\<close>

text \<open>
  C10 (as amended). On a service that owns a notifier and a logger, for every
  recipient \<open>r\<close> and any two contents \<open>c1\<close> and \<open>c2\<close>, each run of
  \<open>sendNotification\<close> appends what the notifier's \<open>send\<close> writes and then the same
  logger record, \<open>"Logging: Notification sent to " + r\<close> and a line feed. When
  \<open>r\<close>, \<open>c1\<close> and \<open>c2\<close> contain no line feed, that record is the second line of
  the output of both runs.
\<close>

theorem logged_record_ignores_content:
  assumes "notifier this = Some n" and "logger this = Some l"
  shows "\<exists>d1 d2.
           cout @ d1 = send n (formatMessage (formatter this) r c1) cout \<and>
           cout @ d2 = send n (formatMessage (formatter this) r c2) cout \<and>
           sendNotification this r c1 cout
             = Inr (this, cout @ d1 @ ''Logging: Notification sent to '' @ r @ [newline]) \<and>
           sendNotification this r c2 cout
             = Inr (this, cout @ d2 @ ''Logging: Notification sent to '' @ r @ [newline]) \<and>
           (newline \<notin> set r \<and> newline \<notin> set c1 \<and> newline \<notin> set c2 \<longrightarrow>
              lines_of (d1 @ ''Logging: Notification sent to '' @ r @ [newline]) ! 1
                = ''Logging: Notification sent to '' @ r \<and>
              lines_of (d2 @ ''Logging: Notification sent to '' @ r @ [newline]) ! 1
                = ''Logging: Notification sent to '' @ r)"
proof -
  let ?lbl = "case n of EmailNotifier \<Rightarrow> ''Sending Email: '' | SMSNotifier \<Rightarrow> ''Sending SMS: ''"
  let ?L = "''Logging: Notification sent to '' @ r"
  define d where "d = (\<lambda>c. ?lbl @ ''Dear '' @ r @ '', '' @ c @ [newline])"
  have fm: "formatMessage (formatter this) r c = ''Dear '' @ r @ '', '' @ c" for c
    by (cases "formatter this") simp
  have disp: "cout @ d c = send n (formatMessage (formatter this) r c) cout" for c
    by (simp add: d_def fm send_stream)
  have run: "sendNotification this r c cout = Inr (this, cout @ d c @ ?L @ [newline])" for c
    using sendNotification_stream [OF assms, of r c cout] by (simp add: d_def)
  have second: "lines_of (d c @ ?L @ [newline]) ! 1 = ?L"
    if "newline \<notin> set r" and "newline \<notin> set c" for c
  proof -
    have a: "newline \<notin> set (?lbl @ ''Dear '' @ r @ '', '' @ c)"
      using that label_no_newline [of n] by (simp add: newline_def)
    have b: "newline \<notin> set ?L"
      using that(1) by (simp add: newline_def)
    have "d c @ ?L @ [newline] = (?lbl @ ''Dear '' @ r @ '', '' @ c) @ newline # ?L @ [newline]"
      by (simp add: d_def)
    then have "lines_of (d c @ ?L @ [newline]) = [?lbl @ ''Dear '' @ r @ '', '' @ c, ?L]"
      using two_lines [OF a b] by simp
    then show ?thesis by simp
  qed
  show ?thesis
  proof (intro exI conjI impI)
    show "cout @ d c1 = send n (formatMessage (formatter this) r c1) cout"
      and "cout @ d c2 = send n (formatMessage (formatter this) r c2) cout"
      by (rule disp)+
    show "sendNotification this r c1 cout
            = Inr (this, cout @ d c1 @ ''Logging: Notification sent to '' @ r @ [newline])"
      and "sendNotification this r c2 cout
            = Inr (this, cout @ d c2 @ ''Logging: Notification sent to '' @ r @ [newline])"
      using run by simp_all
  next
    assume nl: "newline \<notin> set r \<and> newline \<notin> set c1 \<and> newline \<notin> set c2"
    show "lines_of (d c1 @ ''Logging: Notification sent to '' @ r @ [newline]) ! 1
            = ''Logging: Notification sent to '' @ r"
      using second [of c1] nl by simp
    show "lines_of (d c2 @ ''Logging: Notification sent to '' @ r @ [newline]) ! 1
            = ''Logging: Notification sent to '' @ r"
      using second [of c2] nl by simp
  qed
qed

text \<open>
  The theorem at an email service, recipient \<open>Bob\<close>, contents \<open>Hi\<close> and \<open>Bye\<close>.
\<close>

theorem logged_record_ignores_content_witness:
  "notifier (NotificationService (Some EmailNotifier) (Some ConsoleLogger)) = Some EmailNotifier \<and>
   logger (NotificationService (Some EmailNotifier) (Some ConsoleLogger)) = Some ConsoleLogger \<and>
   newline \<notin> set ''Bob'' \<and> newline \<notin> set ''Hi'' \<and> newline \<notin> set ''Bye'' \<and>
   (\<exists>d1 d2.
      sendNotification (NotificationService (Some EmailNotifier) (Some ConsoleLogger))
          ''Bob'' ''Hi'' []
        = Inr (NotificationService (Some EmailNotifier) (Some ConsoleLogger),
               d1 @ ''Logging: Notification sent to Bob\<newline>'') \<and>
      sendNotification (NotificationService (Some EmailNotifier) (Some ConsoleLogger))
          ''Bob'' ''Bye'' []
        = Inr (NotificationService (Some EmailNotifier) (Some ConsoleLogger),
               d2 @ ''Logging: Notification sent to Bob\<newline>'') \<and>
      lines_of (d1 @ ''Logging: Notification sent to Bob\<newline>'') ! 1
        = ''Logging: Notification sent to Bob'' \<and>
      lines_of (d2 @ ''Logging: Notification sent to Bob\<newline>'') ! 1
        = ''Logging: Notification sent to Bob'')"
proof -
  have h: "notifier (NotificationService (Some EmailNotifier) (Some ConsoleLogger)) = Some EmailNotifier"
    "logger (NotificationService (Some EmailNotifier) (Some ConsoleLogger)) = Some ConsoleLogger"
    by (simp_all add: NotificationService_def)
  have nl: "newline \<notin> set ''Bob''" "newline \<notin> set ''Hi''" "newline \<notin> set ''Bye''"
    by (simp_all add: newline_def)
  from logged_record_ignores_content [OF h, of "[]" "''Bob''" "''Hi''" "''Bye''"]
  obtain d1 d2 where
    "sendNotification (NotificationService (Some EmailNotifier) (Some ConsoleLogger))
          ''Bob'' ''Hi'' []
        = Inr (NotificationService (Some EmailNotifier) (Some ConsoleLogger),
               [] @ d1 @ ''Logging: Notification sent to '' @ ''Bob'' @ [newline])"
    "sendNotification (NotificationService (Some EmailNotifier) (Some ConsoleLogger))
          ''Bob'' ''Bye'' []
        = Inr (NotificationService (Some EmailNotifier) (Some ConsoleLogger),
               [] @ d2 @ ''Logging: Notification sent to '' @ ''Bob'' @ [newline])"
    "newline \<notin> set ''Bob'' \<and> newline \<notin> set ''Hi'' \<and> newline \<notin> set ''Bye'' \<longrightarrow>
              lines_of (d1 @ ''Logging: Notification sent to '' @ ''Bob'' @ [newline]) ! 1
                = ''Logging: Notification sent to '' @ ''Bob'' \<and>
              lines_of (d2 @ ''Logging: Notification sent to '' @ ''Bob'' @ [newline]) ! 1
                = ''Logging: Notification sent to '' @ ''Bob''"
    by blast
  with nl have "sendNotification (NotificationService (Some EmailNotifier) (Some ConsoleLogger))
          ''Bob'' ''Hi'' []
        = Inr (NotificationService (Some EmailNotifier) (Some ConsoleLogger),
               d1 @ ''Logging: Notification sent to Bob\<newline>'') \<and>
      sendNotification (NotificationService (Some EmailNotifier) (Some ConsoleLogger))
          ''Bob'' ''Bye'' []
        = Inr (NotificationService (Some EmailNotifier) (Some ConsoleLogger),
               d2 @ ''Logging: Notification sent to Bob\<newline>'') \<and>
      lines_of (d1 @ ''Logging: Notification sent to Bob\<newline>'') ! 1
        = ''Logging: Notification sent to Bob'' \<and>
      lines_of (d2 @ ''Logging: Notification sent to Bob\<newline>'') ! 1
        = ''Logging: Notification sent to Bob''"
    by (simp add: newline_def)
  with h nl show ?thesis by blast
qed

text \<open>
  Two contents, the second with a line feed in it: the second output line of the
  first run is the logger's record, the second output line of the other run is the
  rest of the content.
\<close>

theorem second_line_counterexample:
  "sendNotification (NotificationService (Some EmailNotifier) (Some ConsoleLogger))
       ''Bob'' ''Hi'' []
     = Inr (NotificationService (Some EmailNotifier) (Some ConsoleLogger),
            ''Sending Email: Dear Bob, Hi\<newline>Logging: Notification sent to Bob\<newline>'') \<and>
   sendNotification (NotificationService (Some EmailNotifier) (Some ConsoleLogger))
       ''Bob'' ''Hi\<newline>there'' []
     = Inr (NotificationService (Some EmailNotifier) (Some ConsoleLogger),
            ''Sending Email: Dear Bob, Hi\<newline>there\<newline>Logging: Notification sent to Bob\<newline>'') \<and>
   lines_of ''Sending Email: Dear Bob, Hi\<newline>Logging: Notification sent to Bob\<newline>'' ! 1
     = ''Logging: Notification sent to Bob'' \<and>
   lines_of ''Sending Email: Dear Bob, Hi\<newline>there\<newline>Logging: Notification sent to Bob\<newline>'' ! 1
     = ''there''"
  by (simp add: sendNotification_def NotificationService_def endl_def newline_def)

end
